theory Spec2Isabelle
  imports Main "HOL-Library.Word"
begin

section \<open>Data model of pkg/filesystem/upload.go\<close>

text \<open>
  The file under verification holds four methods of \<^verbatim>\<open>*FileSystem\<close>: \<^verbatim>\<open>Upload\<close>,
  \<^verbatim>\<open>GenerateSavePath\<close>, \<^verbatim>\<open>CancelUpload\<close> and \<^verbatim>\<open>GetUploadToken\<close>. Everything they
  call outside the file (hooks through \<^verbatim>\<open>fs.Trigger\<close>, the storage handler, the
  naming rules of \<^verbatim>\<open>model.Policy\<close>, the settings store, the cache, the random
  generator) is a parameter of the model. Those collaborators have effects, so each
  takes and returns a world \<open>'w\<close>, threaded in the order in which Go evaluates the
  calls. Every call and every log line is also appended to a trace of events, so that
  "is never invoked" is a statement about the trace.
\<close>

subsection \<open>Errors\<close>

text \<open>
  \<^verbatim>\<open>strconv.ParseInt\<close> fails with a \<^verbatim>\<open>*NumError{Func, Num, Err}\<close> whose \<^verbatim>\<open>Err\<close> is
  \<^verbatim>\<open>ErrSyntax\<close> or \<^verbatim>\<open>ErrRange\<close>; \<^verbatim>\<open>serializer.NewError(code, msg, err)\<close> wraps an
  error in an \<^verbatim>\<open>AppError\<close>. The two messages of the source are Chinese text and are
  named here by what they say; the numeric values of the two codes are not in the file.
  Errors of hooks, of the handler and of the cache are opaque.
\<close>

datatype parse_err = ErrSyntax | ErrRange

datatype err_code = CodeInternalSetting | CodeEncryptError

datatype err_msg =
    MsgCredentialTTLInvalid  \<comment> \<open>line 155: the credential lifetime setting is invalid\<close>
  | MsgSessionTTLInvalid     \<comment> \<open>line 163: the session lifetime setting is invalid\<close>
  | MsgTokenFailed           \<comment> \<open>line 171: cannot obtain an upload credential\<close>

datatype error =
    Opaque string
  | NumError string string parse_err
  | AppError err_code err_msg error

subsection \<open>Requests, policies, users\<close>

text \<open>\<^verbatim>\<open>FileHeader\<close> is an interface; the file reads it through three getters.\<close>

record FileHeader =
  GetSize :: "64 word"
  GetFileName :: string
  GetVirtualPath :: string

text \<open>\<^verbatim>\<open>model.File\<close>: the only field read is \<^verbatim>\<open>SourceName\<close>.\<close>

record File =
  SourceName :: string

text \<open>\<^verbatim>\<open>model.Policy\<close>: the four fields the file names. Its zero value is \<open>Policy_zero\<close>.\<close>

record Policy =
  Type :: string
  AutoRename :: bool
  DirNameRule :: string
  FileNameRule :: string

definition Policy_zero :: Policy where
  "Policy_zero = \<lparr>Type = [], AutoRename = False, DirNameRule = [], FileNameRule = []\<rparr>"

text \<open>\<^verbatim>\<open>serializer.UploadPolicy\<close>: the three fields the file reads (\<^verbatim>\<open>AutoRename\<close>,
  \<^verbatim>\<open>SavePath\<close>, \<^verbatim>\<open>FileName\<close>).\<close>

record UploadPolicy =
  UP_AutoRename :: bool
  UP_SavePath :: string
  UP_FileName :: string

text \<open>\<^verbatim>\<open>fs.User\<close>: \<^verbatim>\<open>User.ID\<close> and \<^verbatim>\<open>User.Model.ID\<close> are the same promoted field, a
  \<^verbatim>\<open>uint\<close> that is only compared with 0 and passed on.\<close>

record User =
  ID :: nat
  Nick :: string
  Policy :: Policy

record UploadSession =
  UID :: nat
  VirtualPath :: string

datatype UploadCredential = UploadCredential string

subsection \<open>Contexts\<close>

text \<open>
  A \<^verbatim>\<open>context.Context\<close> is a chain of key/value pairs, the innermost first, and a
  \<^verbatim>\<open>Done()\<close> channel. A channel is modelled by the logical instant at which it is
  closed, \<open>None\<close> when it never is (a nil channel included). A value is an
  \<^verbatim>\<open>interface{}\<close>; the constructors are the dynamic types the file asserts, and
  \<open>VOther\<close> is any other one. \<open>VGinCtx None\<close> is a nil \<^verbatim>\<open>*gin.Context\<close>, and
  \<open>Request = None\<close> a nil \<^verbatim>\<open>*http.Request\<close>.
\<close>

type_synonym done_chan = "nat option"

datatype ctx_key =
  FileHeaderCtx | FileModelCtx | SavePathCtx | GinCtx | HTTPCtx | UploadPolicyCtx

datatype http_Request = http_Request (Request_Context: done_chan)

datatype gin_Context = gin_Context (Request: "http_Request option")

datatype ctx_value =
    VFileHeader FileHeader
  | VFile File
  | VString string
  | VGinCtx "gin_Context option"
  | VContext done_chan
  | VUploadPolicy UploadPolicy
  | VOther string

record Context =
  vals :: "(ctx_key \<times> ctx_value) list"
  Done :: done_chan

definition WithValue :: "Context \<Rightarrow> ctx_key \<Rightarrow> ctx_value \<Rightarrow> Context" where
  "WithValue ctx k v = ctx\<lparr>vals := (k, v) # vals ctx\<rparr>"

definition Value :: "Context \<Rightarrow> ctx_key \<Rightarrow> ctx_value option" where
  "Value ctx k = map_of (vals ctx) k"

text \<open>A closed channel is ready for a receive at every instant from its closing on.\<close>

definition closed_at :: "done_chan \<Rightarrow> nat \<Rightarrow> bool" where
  "closed_at ch t = (case ch of None \<Rightarrow> False | Some c \<Rightarrow> c \<le> t)"

subsection \<open>Events\<close>

datatype hook_field = F_BeforeUpload | F_AfterUpload | F_AfterValidateFailed | F_AfterUploadCanceled

datatype log_line =
    DebugFollowUpFailed error        \<comment> \<open>line 57\<close>
  | InfoNewFile string "64 word" string  \<comment> \<open>line 63\<close>
  | DebugClientCanceled              \<comment> \<open>line 127\<close>
  | DebugCanceledHookFailed error    \<comment> \<open>line 134\<close>

datatype event =
    EvTrigger hook_field Context "error option"
  | EvGenerateSavePath Context FileHeader string
  | EvGoCancelUpload Context string FileHeader
  | EvPut Context FileHeader string "64 word" "error option"
  | EvLog log_line
  | EvGetSettingByNames "string list"
  | EvRandStringRunes nat string
  | EvToken Context int string "error + UploadCredential"
  | EvCacheSet string UploadSession int "error option"

subsection \<open>The file system and its collaborators\<close>

record 'w Handler =
  Put :: "Context \<Rightarrow> FileHeader \<Rightarrow> string \<Rightarrow> 64 word \<Rightarrow> 'w \<Rightarrow> error option \<times> 'w"
  Token :: "Context \<Rightarrow> int \<Rightarrow> string \<Rightarrow> 'w \<Rightarrow> (error + UploadCredential) \<times> 'w"

text \<open>A hook field is nil (\<open>None\<close>) or holds hooks of an opaque type \<open>'h\<close>.\<close>

record ('w, 'h) FileSystem =
  User :: User
  Handler :: "'w Handler"
  BeforeUpload :: "'h option"
  AfterUpload :: "'h option"
  AfterValidateFailed :: "'h option"
  AfterUploadCanceled :: "'h option"

text \<open>
  What the file calls and does not define. \<^verbatim>\<open>fs.Trigger\<close> runs hooks, which receive
  the \<^verbatim>\<open>*FileSystem\<close> and may change it, so it returns the file system too.
\<close>

record ('w, 'h) externals =
  Trigger :: "('w, 'h) FileSystem \<Rightarrow> Context \<Rightarrow> 'h option \<Rightarrow> 'w
                \<Rightarrow> error option \<times> ('w, 'h) FileSystem \<times> 'w"
  GeneratePath :: "Policy \<Rightarrow> nat \<Rightarrow> string \<Rightarrow> 'w \<Rightarrow> string \<times> 'w"
  GenerateFileName :: "Policy \<Rightarrow> nat \<Rightarrow> string \<Rightarrow> 'w \<Rightarrow> string \<times> 'w"
  GetSettingByNames :: "string list \<Rightarrow> 'w \<Rightarrow> (string \<rightharpoonup> string) \<times> 'w"
  RandStringRunes :: "nat \<Rightarrow> 'w \<Rightarrow> string \<times> 'w"
  cache_Set :: "string \<Rightarrow> UploadSession \<Rightarrow> int \<Rightarrow> 'w \<Rightarrow> error option \<times> 'w"

section \<open>Library functions of Go used by the file\<close>

subsection \<open>\<^verbatim>\<open>path/filepath.Join\<close> (Unix)\<close>

text \<open>
  \<^verbatim>\<open>filepath.Join\<close> drops leading empty elements, joins the rest with the separator
  and cleans the result. \<^verbatim>\<open>Clean\<close> works on the elements between separators: empty
  elements and \<^verbatim>\<open>.\<close> go, \<^verbatim>\<open>..\<close> removes the element before it, is dropped at the
  root, and is kept at the start of a relative path. The empty result is \<^verbatim>\<open>.\<close>.
\<close>

fun split_sep :: "string \<Rightarrow> string list" where
  "split_sep [] = [[]]"
| "split_sep (c # cs) =
     (if c = CHR ''/'' then [] # split_sep cs
      else (case split_sep cs of [] \<Rightarrow> [[c]] | e # es \<Rightarrow> (c # e) # es))"

fun clean_elems :: "bool \<Rightarrow> string list \<Rightarrow> string list \<Rightarrow> string list" where
  "clean_elems rooted out [] = out"
| "clean_elems rooted out (e # es) =
     (if e = [] \<or> e = ''.'' then clean_elems rooted out es
      else if e = ''..'' then
        (if out \<noteq> [] \<and> last out \<noteq> ''..'' then clean_elems rooted (butlast out) es
         else if rooted then clean_elems rooted out es
         else clean_elems rooted (out @ [''..'']) es)
      else clean_elems rooted (out @ [e]) es)"

fun join_sep :: "string list \<Rightarrow> string" where
  "join_sep [] = []"
| "join_sep [e] = e"
| "join_sep (e # es) = e @ ''/'' @ join_sep es"

definition Clean :: "string \<Rightarrow> string" where
  "Clean p =
     (let rooted = (p \<noteq> [] \<and> hd p = CHR ''/'');
          out = join_sep (clean_elems rooted [] (split_sep p))
      in if rooted then ''/'' @ out else if out = [] then ''.'' else out)"

definition Join :: "string \<Rightarrow> string \<Rightarrow> string" where
  "Join a b =
     (if a \<noteq> [] then Clean (a @ ''/'' @ b)
      else if b \<noteq> [] then Clean b
      else [])"

subsection \<open>\<^verbatim>\<open>strconv.ParseInt(s, 10, 64)\<close>\<close>

text \<open>
  \<^verbatim>\<open>ParseUint\<close> reads the bytes from the left: a byte that is not a decimal digit is a
  syntax error, and a value that leaves 64 bits is a range error, whichever comes first.
  \<^verbatim>\<open>ParseInt\<close> takes one leading sign off, keeps a syntax error, and turns into a range
  error every magnitude outside \<^verbatim>\<open>int64\<close>.
\<close>

definition maxUint64 :: nat where
  "maxUint64 = 2 ^ 64 - 1"

definition is_digit :: "char \<Rightarrow> bool" where
  "is_digit c = (48 \<le> (of_char c :: nat) \<and> (of_char c :: nat) \<le> 57)"

fun ParseUint_loop :: "nat \<Rightarrow> string \<Rightarrow> parse_err + nat" where
  "ParseUint_loop n [] = Inr n"
| "ParseUint_loop n (c # cs) =
     (if \<not> is_digit c then Inl ErrSyntax
      else if n \<ge> maxUint64 div 10 + 1 then Inl ErrRange
      else if n * 10 + (of_char c - 48) > maxUint64 then Inl ErrRange
      else ParseUint_loop (n * 10 + (of_char c - 48)) cs)"

definition ParseUint :: "string \<Rightarrow> parse_err + nat" where
  "ParseUint s = (if s = [] then Inl ErrSyntax else ParseUint_loop 0 s)"

definition ParseInt :: "string \<Rightarrow> error + int" where
  "ParseInt s0 =
     (if s0 = [] then Inl (NumError ''ParseInt'' s0 ErrSyntax)
      else
        let neg = (hd s0 = CHR ''-'');
            s = (if hd s0 = CHR ''+'' \<or> hd s0 = CHR ''-'' then tl s0 else s0)
        in case ParseUint s of
             Inl ErrSyntax \<Rightarrow> Inl (NumError ''ParseInt'' s0 ErrSyntax)
           | r \<Rightarrow>
               let un = (case r of Inr n \<Rightarrow> n | Inl _ \<Rightarrow> maxUint64)
               in if \<not> neg \<and> un \<ge> 2 ^ 63 then Inl (NumError ''ParseInt'' s0 ErrRange)
                  else if neg \<and> un > 2 ^ 63 then Inl (NumError ''ParseInt'' s0 ErrRange)
                  else Inr (if neg then - int un else int un))"

section \<open>The four methods\<close>

subsection \<open>\<^verbatim>\<open>GenerateSavePath\<close> (lines 75 to 109)\<close>

definition GenerateSavePath ::
  "('w, 'h) externals \<Rightarrow> ('w, 'h) FileSystem \<Rightarrow> Context \<Rightarrow> FileHeader \<Rightarrow> 'w \<Rightarrow> string \<times> 'w"
where
  "GenerateSavePath ext fs ctx file w =
     (if ID (User fs) \<noteq> 0 then
        (case GeneratePath ext (Policy (User fs)) (ID (User fs)) (GetVirtualPath file) w of
           (d, w1) \<Rightarrow>
             (case GenerateFileName ext (Policy (User fs)) (ID (User fs)) (GetFileName file) w1 of
                (f, w2) \<Rightarrow> (Join d f, w2)))
      else
        (let anonymousPolicy =
               (case Value ctx UploadPolicyCtx of
                  Some (VUploadPolicy policy) \<Rightarrow>
                    \<lparr>Type = ''remote'', AutoRename = UP_AutoRename policy,
                     DirNameRule = UP_SavePath policy, FileNameRule = UP_FileName policy\<rparr>
                | _ \<Rightarrow> Policy_zero)
         in case GeneratePath ext anonymousPolicy 0 [] w of
              (d, w1) \<Rightarrow>
                (case GenerateFileName ext anonymousPolicy 0 (GetFileName file) w1 of
                   (f, w2) \<Rightarrow> (Join d f, w2))))"

subsection \<open>\<^verbatim>\<open>Upload\<close> (lines 21 to 71)\<close>

text \<open>
  The result is the returned error, the events in order, and the file system and world
  left behind. The \<^verbatim>\<open>go\<close> statement of line 41 only starts the watcher: it is one
  event here, and what the watcher then does is \<open>CancelUpload\<close> below.
\<close>

definition Upload ::
  "('w, 'h) externals \<Rightarrow> ('w, 'h) FileSystem \<Rightarrow> Context \<Rightarrow> FileHeader \<Rightarrow> 'w
     \<Rightarrow> error option \<times> event list \<times> ('w, 'h) FileSystem \<times> 'w"
where
  "Upload ext fs ctx0 file w =
     (let ctx = WithValue ctx0 FileHeaderCtx (VFileHeader file) in
      case Trigger ext fs ctx (BeforeUpload fs) w of
        (Some err, fs1, w1) \<Rightarrow> (Some err, [EvTrigger F_BeforeUpload ctx (Some err)], fs1, w1)
      | (None, fs1, w1) \<Rightarrow>
          (case (case Value ctx FileModelCtx of
                   Some (VFile originFile) \<Rightarrow> (SourceName originFile, [], w1)
                 | _ \<Rightarrow>
                     (case GenerateSavePath ext fs1 ctx file w1 of
                        (p, w') \<Rightarrow> (p, [EvGenerateSavePath ctx file p], w'))) of
             (savePath, gen, w2) \<Rightarrow>
               (let ctx2 = WithValue ctx SavePathCtx (VString savePath);
                    tr = [EvTrigger F_BeforeUpload ctx None] @ gen
                           @ [EvGoCancelUpload ctx2 savePath file]
                in case Put (Handler fs1) ctx2 file savePath (GetSize file) w2 of
                     (Some err, w3) \<Rightarrow>
                       (Some err, tr @ [EvPut ctx2 file savePath (GetSize file) (Some err)], fs1, w3)
                   | (None, w3) \<Rightarrow>
                       (let tr3 = tr @ [EvPut ctx2 file savePath (GetSize file) None] in
                        case Trigger ext fs1 ctx2 (AfterUpload fs1) w3 of
                          (Some err, fs2, w4) \<Rightarrow>
                            (case Trigger ext fs2 ctx2 (AfterValidateFailed fs2) w4 of
                               (followUpErr, fs3, w5) \<Rightarrow>
                                 (Some err,
                                  tr3 @ [EvTrigger F_AfterUpload ctx2 (Some err),
                                         EvTrigger F_AfterValidateFailed ctx2 followUpErr]
                                      @ (case followUpErr of
                                           None \<Rightarrow> []
                                         | Some e \<Rightarrow> [EvLog (DebugFollowUpFailed e)]),
                                  fs3, w5))
                        | (None, fs2, w4) \<Rightarrow>
                            (None,
                             tr3 @ [EvTrigger F_AfterUpload ctx2 None,
                                    EvLog (InfoNewFile (GetFileName file) (GetSize file)
                                             (Nick (User fs2)))],
                             fs2, w4)))))"

subsection \<open>\<^verbatim>\<open>CancelUpload\<close> (lines 112 to 139)\<close>

text \<open>
  Lines 113 to 118: the request-scoped context, here its \<^verbatim>\<open>Done()\<close> channel. The
  two-valued assertion on \<^verbatim>\<open>GinCtx\<close> falls through to the \<^verbatim>\<open>else\<close> branch when it
  fails; the one-valued assertion on \<^verbatim>\<open>HTTPCtx\<close> panics when it fails, and so does
  reading through a nil pointer. \<open>None\<close> is the panic.
\<close>

definition reqContext :: "Context \<Rightarrow> done_chan option" where
  "reqContext ctx =
     (case Value ctx GinCtx of
        Some (VGinCtx g) \<Rightarrow>
          (case g of
             None \<Rightarrow> None
           | Some ginCtx \<Rightarrow>
               (case Request ginCtx of None \<Rightarrow> None | Some r \<Rightarrow> Some (Request_Context r)))
      | _ \<Rightarrow> (case Value ctx HTTPCtx of Some (VContext c) \<Rightarrow> Some c | _ \<Rightarrow> None))"

text \<open>
  The watcher is a goroutine. The outer \<^verbatim>\<open>select\<close> has one case, so it blocks until
  the request's channel is closed, for ever when it never is. The goroutine goes on
  \<open>delay\<close> instants after the closing (Go promises no bound), and only then does the
  inner \<^verbatim>\<open>select\<close> poll the operation's channel, with a \<^verbatim>\<open>default\<close> when it is not
  yet closed.
\<close>

datatype outcome = Returned | Panicked | BlockedForever

definition CancelUpload ::
  "('w, 'h) externals \<Rightarrow> ('w, 'h) FileSystem \<Rightarrow> Context \<Rightarrow> string \<Rightarrow> FileHeader \<Rightarrow> nat \<Rightarrow> 'w
     \<Rightarrow> outcome \<times> event list \<times> ('w, 'h) FileSystem \<times> 'w"
where
  "CancelUpload ext fs ctx path file delay w =
     (case reqContext ctx of
        None \<Rightarrow> (Panicked, [], fs, w)
      | Some None \<Rightarrow> (BlockedForever, [], fs, w)
      | Some (Some t) \<Rightarrow>
          if closed_at (Done ctx) (t + delay) then (Returned, [], fs, w)
          else if AfterUploadCanceled fs = None then (Returned, [EvLog DebugClientCanceled], fs, w)
          else
            (let ctx' = WithValue ctx SavePathCtx (VString path) in
             case Trigger ext fs ctx' (AfterUploadCanceled fs) w of
               (err, fs', w') \<Rightarrow>
                 (Returned,
                  [EvLog DebugClientCanceled, EvTrigger F_AfterUploadCanceled ctx' err]
                    @ (case err of None \<Rightarrow> [] | Some e \<Rightarrow> [EvLog (DebugCanceledHookFailed e)]),
                  fs', w')))"

subsection \<open>\<^verbatim>\<open>GetUploadToken\<close> (lines 142 to 188)\<close>


section \<open>Vocabulary of the statements\<close>


text \<open>The events in which \<^verbatim>\<open>AfterUploadCanceled\<close> is fired.\<close>

fun fires_canceled :: "event \<Rightarrow> bool" where
  "fires_canceled (EvTrigger F_AfterUploadCanceled c r) = True"
| "fires_canceled ev = False"

section \<open>Naming rules\<close>

text \<open>
  \<^verbatim>\<open>Policy.GeneratePath\<close> and \<^verbatim>\<open>Policy.GenerateFileName\<close> (package \<^verbatim>\<open>models\<close>) are
  called by \<^verbatim>\<open>GenerateSavePath\<close> and are not in the file. The theorems take them as
  parameters; the definitions below are the rules the spec describes, for its scenario.
  The spec calls them "templated string-expansion functions (not specified further)",
  deterministic "unless the policy's auto-rename flag injects non-determinism", and its
  one scenario expands the directory rule \<^verbatim>\<open>/anon\<close> to itself and the file rule
  \<^verbatim>\<open>{name}\<close> to the file name.
\<close>

text \<open>Modelled from the spec: the expansion of the one placeholder the spec shows,
  \<^verbatim>\<open>{name}\<close>, which stands for the file name; every other character is kept.\<close>

fun expand_name :: "string \<Rightarrow> string \<Rightarrow> string" where
  "expand_name name [] = []"
| "expand_name name (c # cs) =
     (if take 6 (c # cs) = ''{name}'' then name @ expand_name name (drop 5 cs)
      else c # expand_name name cs)"

text \<open>Modelled from the spec: \<^verbatim>\<open>Policy.GeneratePath\<close> (missing from the sources). The
  spec names no placeholder of the directory rule, so the rule is taken as it is.\<close>

definition GeneratePath_spec :: "Policy \<Rightarrow> nat \<Rightarrow> string \<Rightarrow> 'w \<Rightarrow> string \<times> 'w" where
  "GeneratePath_spec policy uid origin w = (DirNameRule policy, w)"

text \<open>Modelled from the spec: \<^verbatim>\<open>Policy.GenerateFileName\<close> (missing from the sources).
  The file rule is expanded; with auto-rename on, the expanded name goes through a
  renaming that the spec leaves open and that is a parameter here.\<close>

definition GenerateFileName_spec ::
  "(string \<Rightarrow> 'w \<Rightarrow> string \<times> 'w) \<Rightarrow> Policy \<Rightarrow> nat \<Rightarrow> string \<Rightarrow> 'w \<Rightarrow> string \<times> 'w" where
  "GenerateFileName_spec rename policy uid origin w =
     (if AutoRename policy then rename (expand_name origin (FileNameRule policy)) w
      else (expand_name origin (FileNameRule policy), w))"

section \<open>Example collaborators\<close>

text \<open>
  Concrete collaborators on which the theorems are run. The world counts the calls made.
  A hook is the error it returns, if any; \<open>ex_Trigger\<close> on a nil field returns no error.
\<close>

definition ex_Trigger ::
  "(nat, error option) FileSystem \<Rightarrow> Context \<Rightarrow> error option option \<Rightarrow> nat
     \<Rightarrow> error option \<times> (nat, error option) FileSystem \<times> nat" where
  "ex_Trigger fs ctx hook w = ((case hook of None \<Rightarrow> None | Some r \<Rightarrow> r), fs, Suc w)"

definition ex_externals :: "(string \<rightharpoonup> string) \<Rightarrow> error option \<Rightarrow> (nat, error option) externals" where
  "ex_externals settings cache_result =
     \<lparr>Trigger = ex_Trigger,
      GeneratePath = GeneratePath_spec,
      GenerateFileName = GenerateFileName_spec (\<lambda>s w. (s, w)),
      GetSettingByNames = (\<lambda>names w. (settings, Suc w)),
      RandStringRunes = (\<lambda>n w. (replicate n CHR ''k'', Suc w)),
      cache_Set = (\<lambda>k s ttl w. (cache_result, Suc w))\<rparr>"

definition ex_Handler :: "error option \<Rightarrow> error + UploadCredential \<Rightarrow> nat Handler" where
  "ex_Handler put_result token_result =
     \<lparr>Put = (\<lambda>ctx file p s w. (put_result, Suc w)),
      Token = (\<lambda>ctx ttl key w. (token_result, Suc w))\<rparr>"

definition ex_fs ::
  "nat \<Rightarrow> nat Handler \<Rightarrow> error option option \<Rightarrow> error option option \<Rightarrow> error option option
     \<Rightarrow> error option option \<Rightarrow> (nat, error option) FileSystem" where
  "ex_fs uid h hb ha hf hc =
     \<lparr>User = \<lparr>ID = uid, Nick = ''nick'',
              Policy = \<lparr>Type = ''local'', AutoRename = False,
                        DirNameRule = ''/uploads'', FileNameRule = ''{name}''\<rparr>\<rparr>,
      Handler = h, BeforeUpload = hb, AfterUpload = ha,
      AfterValidateFailed = hf, AfterUploadCanceled = hc\<rparr>"

definition ex_file :: FileHeader where
  "ex_file = \<lparr>GetSize = 5, GetFileName = ''a.txt'', GetVirtualPath = ''/a.txt''\<rparr>"

definition ex_ctx :: "(ctx_key \<times> ctx_value) list \<Rightarrow> done_chan \<Rightarrow> Context" where
  "ex_ctx kvs d = \<lparr>vals = kvs, Done = d\<rparr>"

text \<open>A handler that is not reached, and one that stores and issues.\<close>

definition ex_idle :: "nat Handler" where
  "ex_idle = ex_Handler None (Inl (Opaque ''unsupported''))"

definition ex_store :: "nat Handler" where
  "ex_store = ex_Handler None (Inr (UploadCredential ''tok''))"

text \<open>Naming rules other than those of the spec: a file keeps its own name unless it is
  renamed, and directories live under \<^verbatim>\<open>/d\<close>.\<close>

definition ex_keep_name :: "(nat, error option) externals" where
  "ex_keep_name =
     (ex_externals Map.empty None)
       \<lparr>GeneratePath := (\<lambda>p uid origin w. (''/d'' @ DirNameRule p, Suc w)),
        GenerateFileName :=
          (\<lambda>p uid origin w. (if AutoRename p then FileNameRule p else origin, Suc w))\<rparr>"

section \<open>Lemmas on the library functions and the examples\<close>





text \<open>The documented examples of \<^verbatim>\<open>filepath.Join\<close> and some border cases of
  \<^verbatim>\<open>strconv.ParseInt\<close>, as a check of the two models.\<close>

lemma Join_examples:
  "Join ''a'' ''b/c'' = ''a/b/c''"
  "Join ''a/b'' ''../../../xyz'' = ''../xyz''"
  "Join ''a'' [] = ''a''"
  "Join [] ''a'' = ''a''"
  "Join [] [] = []"
  "Join ''/'' ''a'' = ''/a''"
  "Join ''/a/'' ''/b'' = ''/a/b''"
  "Join ''/..'' ''./a'' = ''/a''"
  by (simp_all add: Join_def Clean_def)

lemma ParseInt_examples:
  "ParseInt [] = Inl (NumError ''ParseInt'' [] ErrSyntax)"
  "ParseInt ''+'' = Inl (NumError ''ParseInt'' ''+'' ErrSyntax)"
  "ParseInt ''-12'' = Inr (- 12)"
  "ParseInt ''+12'' = Inr 12"
  "ParseInt ''12 '' = Inl (NumError ''ParseInt'' ''12 '' ErrSyntax)"
  "ParseInt ''1_000'' = Inl (NumError ''ParseInt'' ''1_000'' ErrSyntax)"
  "ParseInt ''9223372036854775807'' = Inr 9223372036854775807"
  "ParseInt ''9223372036854775808''
     = Inl (NumError ''ParseInt'' ''9223372036854775808'' ErrRange)"
  "ParseInt ''-9223372036854775808'' = Inr (- 9223372036854775808)"
  "ParseInt ''99999999999999999999x''
     = Inl (NumError ''ParseInt'' ''99999999999999999999x'' ErrRange)"
  by (simp_all add: ParseInt_def ParseUint_def is_digit_def maxUint64_def)







section \<open>The claims\<close>



text \<open>
  C2, as the code has it. Let the request-scoped context end at instant \<open>t\<close> and the
  watcher poll the operation-scoped context \<open>delay\<close> instants later. If a hook is
  registered and the operation-scoped context has not ended at the poll, then
  \<^verbatim>\<open>AfterUploadCanceled\<close> is fired exactly once; this is so in particular when the poll
  is immediate and the request-scoped context ends strictly before the operation-scoped
  one. If the operation-scoped context has ended by the instant the request-scoped one
  ends, nothing is fired and nothing else happens, whatever the delay. If no hook is
  registered, no hook is triggered, the file system and the world are untouched, and the
  only possible event is the debug line of line 127.
\<close>

theorem CancelUpload_fires:
  assumes "reqContext ctx = Some (Some t)"
  shows "(AfterUploadCanceled fs \<noteq> None \<and> \<not> closed_at (Done ctx) (t + delay) \<longrightarrow>
            length (filter fires_canceled
              (fst (snd (CancelUpload ext fs ctx path file delay w)))) = 1)
       \<and> (delay = 0 \<and> AfterUploadCanceled fs \<noteq> None
            \<and> (Done ctx = None \<or> (\<exists>u. Done ctx = Some u \<and> t < u)) \<longrightarrow>
            length (filter fires_canceled
              (fst (snd (CancelUpload ext fs ctx path file delay w)))) = 1)
       \<and> (closed_at (Done ctx) t \<longrightarrow>
            CancelUpload ext fs ctx path file delay w = (Returned, [], fs, w))
       \<and> (AfterUploadCanceled fs = None \<longrightarrow>
            (\<forall>ev \<in> set (fst (snd (CancelUpload ext fs ctx path file delay w))).
               ev = EvLog DebugClientCanceled)
            \<and> snd (snd (CancelUpload ext fs ctx path file delay w)) = (fs, w))"
  using assms unfolding CancelUpload_def Let_def closed_at_def
  by (auto split: prod.splits option.splits)

theorem CancelUpload_fires_witness:
  "reqContext (ex_ctx [(HTTPCtx, VContext (Some 1))] (Some 5)) = Some (Some 1)
 \<and> \<not> closed_at (Done (ex_ctx [(HTTPCtx, VContext (Some 1))] (Some 5))) (1 + 2)
 \<and> length (filter fires_canceled
      (fst (snd (CancelUpload (ex_externals Map.empty None)
         (ex_fs 1 ex_idle None None None (Some None))
         (ex_ctx [(HTTPCtx, VContext (Some 1))] (Some 5)) ''/uploads/a.txt'' ex_file 2 0)))) = 1
 \<and> CancelUpload (ex_externals Map.empty None) (ex_fs 1 ex_idle None None None (Some None))
      (ex_ctx [(HTTPCtx, VContext (Some 1))] (Some 1)) ''/uploads/a.txt'' ex_file 0 0
     = (Returned, [], ex_fs 1 ex_idle None None None (Some None), 0)"
proof -
  let ?fs = "ex_fs 1 ex_idle None None None (Some None)"
  have r5: "reqContext (ex_ctx [(HTTPCtx, VContext (Some 1))] (Some 5)) = Some (Some 1)"
    by (simp add: reqContext_def Value_def ex_ctx_def)
  have r1: "reqContext (ex_ctx [(HTTPCtx, VContext (Some 1))] (Some 1)) = Some (Some 1)"
    by (simp add: reqContext_def Value_def ex_ctx_def)
  have h: "AfterUploadCanceled ?fs \<noteq> None" by (simp add: ex_fs_def)
  have o: "\<not> closed_at (Done (ex_ctx [(HTTPCtx, VContext (Some 1))] (Some 5))) (1 + 2)"
    by (simp add: closed_at_def ex_ctx_def)
  have c: "closed_at (Done (ex_ctx [(HTTPCtx, VContext (Some 1))] (Some 1))) 1"
    by (simp add: closed_at_def ex_ctx_def)
  from h o
    CancelUpload_fires [OF r5, of ?fs 2 "ex_externals Map.empty None" "''/uploads/a.txt''" ex_file 0]
  have "length (filter fires_canceled
      (fst (snd (CancelUpload (ex_externals Map.empty None) ?fs
         (ex_ctx [(HTTPCtx, VContext (Some 1))] (Some 5)) ''/uploads/a.txt'' ex_file 2 0)))) = 1"
    by blast
  moreover from c
    CancelUpload_fires [OF r1, of ?fs 0 "ex_externals Map.empty None" "''/uploads/a.txt''" ex_file 0]
  have "CancelUpload (ex_externals Map.empty None) ?fs
      (ex_ctx [(HTTPCtx, VContext (Some 1))] (Some 1)) ''/uploads/a.txt'' ex_file 0 0
     = (Returned, [], ?fs, 0)"
    by blast
  ultimately show ?thesis using r5 o by simp
qed

text \<open>
  C2 as stated fails: the request-scoped context ends at instant 1, strictly before the
  operation-scoped context ends at instant 2, a hook is registered, and the watcher
  comes to its poll at instant 3. It finds the operation-scoped channel closed, takes
  the branch of line 123 and fires nothing.
\<close>

theorem CancelUpload_late_poll_counterexample:
  "reqContext (ex_ctx [(HTTPCtx, VContext (Some 1))] (Some 2)) = Some (Some 1)
 \<and> Done (ex_ctx [(HTTPCtx, VContext (Some 1))] (Some 2)) = Some 2
 \<and> AfterUploadCanceled (ex_fs 1 ex_idle None None None (Some None)) = Some None
 \<and> length (filter fires_canceled
      (fst (snd (CancelUpload (ex_externals Map.empty None)
         (ex_fs 1 ex_idle None None None (Some None))
         (ex_ctx [(HTTPCtx, VContext (Some 1))] (Some 2)) ''/uploads/a.txt'' ex_file 2 0)))) = 0"
  by (simp add: CancelUpload_def reqContext_def Value_def closed_at_def ex_ctx_def ex_fs_def)

text \<open>
  C3. When \<^verbatim>\<open>BeforeUpload\<close> returns an error, \<^verbatim>\<open>Upload\<close> returns that error. The
  trace holds the one \<^verbatim>\<open>Trigger\<close> call and nothing else: no \<^verbatim>\<open>Put\<close>, no
  \<^verbatim>\<open>AfterUpload\<close>, no \<^verbatim>\<open>AfterValidateFailed\<close>, no \<^verbatim>\<open>GenerateSavePath\<close>, no watcher
  and no context bound to a destination; file system and world are as the hook left them.
\<close>

theorem Upload_BeforeUpload_error:
  assumes "Trigger ext fs (WithValue ctx FileHeaderCtx (VFileHeader file)) (BeforeUpload fs) w
             = (Some err, fs1, w1)"
  shows "Upload ext fs ctx file w =
           (Some err,
            [EvTrigger F_BeforeUpload (WithValue ctx FileHeaderCtx (VFileHeader file)) (Some err)],
            fs1, w1)"
  using assms by (simp add: Upload_def)

theorem Upload_BeforeUpload_error_witness:
  "Upload (ex_externals Map.empty None)
      (ex_fs 1 ex_store (Some (Some (Opaque ''quota''))) None None None)
      (ex_ctx [] None) ex_file 0
   = (Some (Opaque ''quota''),
      [EvTrigger F_BeforeUpload (WithValue (ex_ctx [] None) FileHeaderCtx (VFileHeader ex_file))
         (Some (Opaque ''quota''))],
      ex_fs 1 ex_store (Some (Some (Opaque ''quota''))) None None None,
      1)"
proof -
  let ?fs = "ex_fs 1 ex_store (Some (Some (Opaque ''quota''))) None None None"
  have h: "Trigger (ex_externals Map.empty None) ?fs
             (WithValue (ex_ctx [] None) FileHeaderCtx (VFileHeader ex_file)) (BeforeUpload ?fs) 0
           = (Some (Opaque ''quota''), ?fs, 1)"
    by (simp add: ex_externals_def ex_Trigger_def ex_fs_def)
  show ?thesis by (rule Upload_BeforeUpload_error [OF h])
qed













text \<open>
  C10. For an anonymous request (owner 0) whose context holds no
  \<^verbatim>\<open>serializer.UploadPolicy\<close> under \<^verbatim>\<open>UploadPolicyCtx\<close>, \<^verbatim>\<open>GenerateSavePath\<close> has no
  error to return: it calls the directory rule and the file rule on the zero policy
  (empty type and rules, auto-rename off), with owner 0, the empty virtual path and the
  file name, and returns the join of the two results.
\<close>

theorem GenerateSavePath_anonymous_no_policy:
  assumes "ID (User fs) = 0"
      and "\<forall>policy. Value ctx UploadPolicyCtx \<noteq> Some (VUploadPolicy policy)"
  shows "GenerateSavePath ext fs ctx file w =
           (case GeneratePath ext Policy_zero 0 [] w of
              (d, w1) \<Rightarrow>
                (case GenerateFileName ext Policy_zero 0 (GetFileName file) w1 of
                   (f, w2) \<Rightarrow> (Join d f, w2)))
       \<and> DirNameRule Policy_zero = [] \<and> FileNameRule Policy_zero = []
       \<and> Type Policy_zero = [] \<and> \<not> AutoRename Policy_zero"
  using assms unfolding GenerateSavePath_def Let_def Policy_zero_def
  by (auto split: option.splits ctx_value.splits)

theorem GenerateSavePath_anonymous_no_policy_witness:
  "GenerateSavePath ex_keep_name (ex_fs 0 ex_store None None None None) (ex_ctx [] None) ex_file 0
   = (''/d/a.txt'', 2)"
proof -
  let ?fs = "ex_fs 0 ex_store None None None None"
  have i: "ID (User ?fs) = 0" by (simp add: ex_fs_def)
  have v: "\<forall>policy. Value (ex_ctx [] None) UploadPolicyCtx \<noteq> Some (VUploadPolicy policy)"
    by (simp add: Value_def ex_ctx_def)
  from GenerateSavePath_anonymous_no_policy [OF i v, of ex_keep_name ex_file 0]
  show ?thesis
    by (simp add: ex_keep_name_def ex_externals_def ex_file_def Join_def Clean_def)
qed

end
